theory Spec2Isabelle
  imports Main
begin

section \<open>The chat service of the Blackbird SDK\<close>

text \<open>
  A shallow embedding of \<^verbatim>\<open>src/blackbird_sdk/services/chat.py\<close> (class
  \<^verbatim>\<open>ChatService\<close>). Every method takes the world it runs in and returns its
  result, or the exception it raises, together with the world it leaves behind. The
  world records the calls made to the two collaborators of the service (the HTTP
  client and the event source manager), the calls made to the caller's handlers, the
  logger, and the clock.
\<close>

subsection \<open>Python values\<close>

text \<open>
  The values that occur in option dictionaries and in decoded event payloads:
  \<^verbatim>\<open>None\<close>, booleans, integers and strings. \<open>truthy\<close> is Python's truth
  test (\<^verbatim>\<open>if v:\<close>, \<^verbatim>\<open>not v\<close>, \<^verbatim>\<open>a or b\<close>).
\<close>

datatype pyval = PNone | PBool bool | PInt int | PStr string

fun truthy :: "pyval \<Rightarrow> bool" where
  "truthy PNone = False"
| "truthy (PBool b) = b"
| "truthy (PInt i) = (i \<noteq> 0)"
| "truthy (PStr s) = (s \<noteq> [])"

type_synonym pydict = "string \<rightharpoonup> pyval"

text \<open>\<^verbatim>\<open>d.get(k)\<close> and \<^verbatim>\<open>d.get(k, default)\<close>.\<close>

definition dict_get :: "pydict \<Rightarrow> string \<Rightarrow> pyval" where
  "dict_get d k = (case d k of None \<Rightarrow> PNone | Some v \<Rightarrow> v)"

definition dict_get_default :: "pydict \<Rightarrow> string \<Rightarrow> pyval \<Rightarrow> pyval" where
  "dict_get_default d k dflt = (case d k of None \<Rightarrow> dflt | Some v \<Rightarrow> v)"

text \<open>\<^verbatim>\<open>str(v)\<close>: decimal digits for an integer, the string itself for a string.\<close>

function show_nat :: "nat \<Rightarrow> string" where
  "show_nat n =
     (if n < 10 then [char_of (48 + n)]
      else show_nat (n div 10) @ [char_of (48 + n mod 10)])"
  by pat_completeness auto
termination
  by (relation "measure (\<lambda>n. n)") auto

declare show_nat.simps [simp del]

fun py_str :: "pyval \<Rightarrow> string" where
  "py_str PNone = ''None''"
| "py_str (PBool b) = (if b then ''True'' else ''False'')"
| "py_str (PInt i) = (if i < 0 then CHR ''-'' # show_nat (nat (- i)) else show_nat (nat i))"
| "py_str (PStr s) = s"

subsection \<open>Exceptions\<close>

text \<open>
  The exceptions the service raises itself (\<open>ValidationError\<close> with its message and
  field name, \<open>StreamingResponseError\<close>), the ones the interpreter raises for it
  (\<open>TypeError\<close>, whose message is not modelled, and \<open>KeyError\<close> with the missing
  key), and the ones that come out of foreign code: any other
  instance of \<^verbatim>\<open>Exception\<close>, and an instance of \<^verbatim>\<open>BaseException\<close> that is
  not an \<^verbatim>\<open>Exception\<close> (\<^verbatim>\<open>KeyboardInterrupt\<close>, \<^verbatim>\<open>SystemExit\<close>), which
  \<^verbatim>\<open>except Exception\<close> does not catch.
\<close>

datatype exc =
    ValidationError string string
  | StreamingResponseError string
  | TypeError
  | KeyError string
  | Exception string
  | BaseException string

fun is_Exception :: "exc \<Rightarrow> bool" where
  "is_Exception (BaseException _) = False"
| "is_Exception _ = True"

subsection \<open>Events, responses and the collaborators\<close>

text \<open>
  An event handed to the callback: it has no \<^verbatim>\<open>data\<close> attribute, or its
  \<^verbatim>\<open>data\<close> is not a dictionary, or it is one.
\<close>

datatype event = NoData | NonDictData pyval | DictData pydict

text \<open>What the HTTP client returns: a string, a dictionary, or something else.\<close>

datatype response = StrResponse string | DictResponse pydict | OtherResponse pyval

text \<open>What a method of the service returns.\<close>

datatype result = Response response | Text string | StreamId string

datatype http_call = Post string pydict

datatype esm_call =
    StartChatStream pyval pyval pyval
  | GetStreamStatus string
  | StopStream string
  | PauseStream string
  | ResumeStream string

text \<open>
  The event source manager is not part of the source files; the service only calls it.
  Its behaviour during one streaming exchange is a parameter of the model:
  \<^item> \<open>start_chat_stream\<close>: the stream identifier \<^verbatim>\<open>start_chat_stream(...)\<close> returns,
    or the exception it raises; \<open>start_ms\<close>: the milliseconds that call takes;
  \<^item> \<open>status_at k\<close>: what the \<open>k\<close>-th call of \<^verbatim>\<open>get_stream_status\<close> returns or raises;
  \<^item> \<open>events_during 0\<close>: the events its reader delivers to the callback between the
    start of the stream and the first status poll; \<open>events_during (Suc k)\<close>: those it
    delivers while the caller sleeps after the \<open>k\<close>-th poll;
  \<^item> \<open>poll_ms k\<close>: the milliseconds the \<open>k\<close>-th status poll takes; \<open>oversleep_ms k\<close>:
    the milliseconds by which the \<open>k\<close>-th \<^verbatim>\<open>time.sleep(0.1)\<close> exceeds 0.1 s.
\<close>

record esm =
  start_chat_stream :: "exc + string"
  start_ms :: nat
  status_at :: "nat \<Rightarrow> exc + pyval"
  events_during :: "nat \<Rightarrow> event list"
  poll_ms :: "nat \<Rightarrow> nat"
  oversleep_ms :: "nat \<Rightarrow> nat"

text \<open>
  The service object and what it imports: its two collaborators, the feature flag
  \<^verbatim>\<open>is_feature_enabled("streaming_responses")\<close>, the gate of the decorator
  \<^verbatim>\<open>@require_feature("streaming_responses")\<close> (\<open>None\<close>: the call goes through;
  \<open>Some e\<close>: the decorator raises \<open>e\<close> before the method runs), the endpoint constant
  \<^verbatim>\<open>CHAT\<close>, whether the HTTP client has a \<^verbatim>\<open>logger\<close> attribute, and
  \<^verbatim>\<open>platform.machine().lower()\<close>.
\<close>

record env =
  http_post :: "string \<Rightarrow> pydict \<Rightarrow> exc + response"
  event_source_manager :: "esm option"
  streaming_enabled :: bool
  require_streaming :: "exc option"
  CHAT :: string
  has_logger :: bool
  system :: string

text \<open>
  The world: the clock in milliseconds, the requests issued to the HTTP client, the
  calls issued to the event source manager, the lines logged, the list
  \<^verbatim>\<open>collected_response\<close> of the running exchange, the arguments the caller's
  \<^verbatim>\<open>on_chunk\<close> and \<^verbatim>\<open>on_error\<close> were called with, and the exceptions that left
  the chunk handler.
\<close>

record world =
  now :: nat
  http_log :: "http_call list"
  esm_log :: "esm_call list"
  logger_log :: "string list"
  collected_response :: "pyval list"
  chunk_calls :: "pyval list"
  error_calls :: "exc list"
  escaped :: "exc list"

text \<open>
  A handler supplied by the caller: absent (\<^verbatim>\<open>None\<close>), or a function that returns
  (\<open>None\<close>) or raises (\<open>Some e\<close>).
\<close>

type_synonym 'a handler = "('a \<Rightarrow> exc option) option"

subsection \<open>\<^verbatim>\<open>_extract_response_text\<close>\<close>

text \<open>
  The loop \<^verbatim>\<open>for key in [...]: if key in response: return str(response[key])\<close>;
  \<open>None\<close> when the loop ends without returning.
\<close>

fun first_key :: "string list \<Rightarrow> pydict \<Rightarrow> string option" where
  "first_key [] d = None"
| "first_key (key # keys) d =
     (case d key of Some v \<Rightarrow> Some (py_str v) | None \<Rightarrow> first_key keys d)"

definition response_keys :: "string list" where
  "response_keys = [''response'', ''message'', ''text'', ''content'', ''answer'']"

text \<open>
  \<^verbatim>\<open>json.dumps(response, indent=2)\<close> is the library's; it is the parameter
  \<open>json_dumps\<close>.
\<close>

fun extract_response_text :: "(pydict \<Rightarrow> string) \<Rightarrow> response \<Rightarrow> string" where
  "extract_response_text json_dumps (StrResponse s) = s"
| "extract_response_text json_dumps (DictResponse d) =
     (case first_key response_keys d of Some s \<Rightarrow> s | None \<Rightarrow> json_dumps d)"
| "extract_response_text json_dumps (OtherResponse v) = py_str v"

subsection \<open>\<^verbatim>\<open>_handle_streaming_response\<close>\<close>

text \<open>
  The first half of the body of \<^verbatim>\<open>default_chunk_handler\<close>: \<^verbatim>\<open>chunk_text\<close>
  starts as the empty string and is replaced by the value under \<^verbatim>\<open>'response'\<close>,
  else by the one under \<^verbatim>\<open>'message'\<close>, when the event's data is a dictionary.
\<close>

fun chunk_text_of :: "event \<Rightarrow> pyval" where
  "chunk_text_of (DictData d) =
     (case d ''response'' of Some v \<Rightarrow> v
      | None \<Rightarrow> (case d ''message'' of Some v \<Rightarrow> v | None \<Rightarrow> PStr ''''))"
| "chunk_text_of _ = PStr ''''"

text \<open>
  The body of the \<^verbatim>\<open>try\<close>: a truthy chunk is appended to
  \<^verbatim>\<open>collected_response\<close> and then passed to \<^verbatim>\<open>on_chunk\<close>, if there is one. The
  result is the exception raised in the body, if any.
\<close>

definition chunk_body :: "pyval handler \<Rightarrow> event \<Rightarrow> world \<Rightarrow> exc option \<times> world" where
  "chunk_body on_chunk ev w =
     (let chunk_text = chunk_text_of ev in
      if truthy chunk_text then
        (let w1 = w\<lparr>collected_response := collected_response w @ [chunk_text]\<rparr> in
         case on_chunk of
           None \<Rightarrow> (None, w1)
         | Some f \<Rightarrow> (f chunk_text, w1\<lparr>chunk_calls := chunk_calls w1 @ [chunk_text]\<rparr>))
      else (None, w))"

text \<open>
  \<^verbatim>\<open>default_chunk_handler\<close>: \<^verbatim>\<open>except Exception as e: if on_error: on_error(e)\<close>
  around the body. An exception that is not an \<^verbatim>\<open>Exception\<close> leaves the handler,
  and so does whatever \<^verbatim>\<open>on_error\<close> raises.
\<close>

definition default_chunk_handler ::
  "pyval handler \<Rightarrow> exc handler \<Rightarrow> event \<Rightarrow> world \<Rightarrow> exc option \<times> world" where
  "default_chunk_handler on_chunk on_error ev w =
     (case chunk_body on_chunk ev w of
        (None, w1) \<Rightarrow> (None, w1)
      | (Some e, w1) \<Rightarrow>
          if is_Exception e then
            (case on_error of
               None \<Rightarrow> (None, w1)
             | Some g \<Rightarrow> (g e, w1\<lparr>error_calls := error_calls w1 @ [e]\<rparr>))
          else (Some e, w1))"

text \<open>
  Modelled from the spec: the event source manager's reader, which is not under the
  source files. It hands each event to the callback in the order received, and an
  exception that leaves the callback does not abort its loop (the Dispatcher's failure
  semantics); the model records it in \<open>escaped\<close>.
\<close>

fun deliver :: "pyval handler \<Rightarrow> exc handler \<Rightarrow> event list \<Rightarrow> world \<Rightarrow> world" where
  "deliver on_chunk on_error [] w = w"
| "deliver on_chunk on_error (ev # evs) w =
     (case default_chunk_handler on_chunk on_error ev w of
        (None, w1) \<Rightarrow> deliver on_chunk on_error evs w1
      | (Some e, w1) \<Rightarrow> deliver on_chunk on_error evs (w1\<lparr>escaped := escaped w1 @ [e]\<rparr>))"

lemma now_deliver: "now (deliver on_chunk on_error evs w) = now w"
  by (induction evs arbitrary: w)
     (auto simp: default_chunk_handler_def chunk_body_def Let_def
           split: prod.splits option.splits if_splits)

text \<open>
  The local constants of the waiting loop, in milliseconds: \<^verbatim>\<open>timeout = 30\<close>
  seconds and \<^verbatim>\<open>time.sleep(0.1)\<close>. The three statuses that end the wait.
\<close>

definition timeout_ms :: nat where
  "timeout_ms = 30000"

definition sleep_ms :: nat where
  "sleep_ms = 100"

definition terminal_statuses :: "pyval list" where
  "terminal_statuses = [PStr ''CLOSED'', PStr ''ERROR'', PStr ''COMPLETED'']"

text \<open>
  The loop \<^verbatim>\<open>while time.time() - start_time < timeout\<close>, at its \<open>k\<close>-th
  iteration: the status is polled; a terminal status breaks the loop; otherwise the
  caller sleeps, and the reader delivers \<open>events_during (Suc k)\<close> meanwhile. The
  result is the exception \<^verbatim>\<open>get_stream_status\<close> raised, if any.
\<close>

function wait_loop ::
  "esm \<Rightarrow> pyval handler \<Rightarrow> exc handler \<Rightarrow> string \<Rightarrow> nat \<Rightarrow> nat \<Rightarrow> world
     \<Rightarrow> exc option \<times> world" where
  "wait_loop m on_chunk on_error stream_id start_time k w =
     (if now w - start_time < timeout_ms then
        (let w1 = w\<lparr>esm_log := esm_log w @ [GetStreamStatus stream_id],
                     now := now w + poll_ms m k\<rparr> in
         case status_at m k of
           Inl e \<Rightarrow> (Some e, w1)
         | Inr status \<Rightarrow>
             if status \<in> set terminal_statuses then (None, w1)
             else wait_loop m on_chunk on_error stream_id start_time (Suc k)
                    (deliver on_chunk on_error (events_during m (Suc k))
                       (w1\<lparr>now := now w1 + sleep_ms + oversleep_ms m k\<rparr>)))
      else (None, w))"
  by pat_completeness auto
termination
  by (relation "measure (\<lambda>(m, on_chunk, on_error, stream_id, start_time, k, w).
                   start_time + timeout_ms - now w)")
     (auto simp: now_deliver timeout_ms_def sleep_ms_def)

declare wait_loop.simps [simp del]

text \<open>
  \<^verbatim>\<open>''.join(collected_response)\<close>: the concatenation when every item is a
  string, a \<^verbatim>\<open>TypeError\<close> otherwise.
\<close>

fun py_join :: "pyval list \<Rightarrow> exc + string" where
  "py_join [] = Inr []"
| "py_join (PStr s # vs) =
     (case py_join vs of Inl e \<Rightarrow> Inl e | Inr t \<Rightarrow> Inr (s @ t))"
| "py_join (v # vs) = Inl TypeError"

text \<open>
  \<^verbatim>\<open>_handle_streaming_response(data, on_chunk, on_complete, on_error)\<close>. The
  closures \<^verbatim>\<open>completion_handler\<close> and \<^verbatim>\<open>error_handler\<close> are defined in the
  source but handed to nobody: only \<^verbatim>\<open>default_chunk_handler\<close> is registered, as
  \<^verbatim>\<open>event_callback\<close>. So \<open>on_complete\<close> is never called, and \<open>on_error\<close> only from
  the chunk handler. The call of \<^verbatim>\<open>start_chat_stream\<close> takes \<open>start_ms\<close> on the
  clock, and \<^verbatim>\<open>start_time\<close> is the clock when it has returned.
\<close>

definition handle_streaming_response ::
  "env \<Rightarrow> pydict \<Rightarrow> pyval handler \<Rightarrow> unit handler \<Rightarrow> exc handler \<Rightarrow> world
     \<Rightarrow> (exc + result) \<times> world" where
  "handle_streaming_response env data on_chunk on_complete on_error w =
     (case event_source_manager env of
        None \<Rightarrow> (Inl (StreamingResponseError ''EventSourceManager not available''), w)
      | Some m \<Rightarrow>
          (let w0 = w\<lparr>collected_response := []\<rparr> in
           case data ''message'' of
             None \<Rightarrow> (Inl (KeyError ''message''), w0)
           | Some msg \<Rightarrow>
               (let w1 = w0\<lparr>esm_log := esm_log w0 @
                           [StartChatStream msg
                              (dict_get_default data ''agent'' (PStr ''''))
                              (dict_get_default data ''model'' (PStr ''''))],
                          now := now w0 + start_ms m\<rparr> in
                case start_chat_stream m of
                  Inl e \<Rightarrow> (Inl e, w1)
                | Inr stream_id \<Rightarrow>
                    (let w2 = deliver on_chunk on_error (events_during m 0) w1 in
                     case wait_loop m on_chunk on_error stream_id (now w2) 0 w2 of
                       (Some e, w3) \<Rightarrow> (Inl e, w3)
                     | (None, w3) \<Rightarrow>
                         (case py_join (collected_response w3) of
                            Inl e \<Rightarrow> (Inl e, w3)
                          | Inr s \<Rightarrow> (Inr (Text s), w3))))))"

subsection \<open>\<^verbatim>\<open>send_message\<close>\<close>

text \<open>
  \<^verbatim>\<open>send_message(message, options=None, streaming=False, on_chunk=None,
  on_complete=None, on_error=None, **kwargs)\<close>.

  The streaming branch calls \<^verbatim>\<open>self._handle_streaming_response(data, **kwargs)\<close>:
  the three handlers are parameters of \<^verbatim>\<open>send_message\<close> itself, so they are never
  in \<^verbatim>\<open>kwargs\<close> and are not passed on; and every name that can be in
  \<^verbatim>\<open>kwargs\<close> is one \<^verbatim>\<open>_handle_streaming_response\<close> does not take (or is
  \<^verbatim>\<open>data\<close>, given twice), so a non-empty \<^verbatim>\<open>kwargs\<close> is a \<^verbatim>\<open>TypeError\<close>.
\<close>

definition call_with_kwargs ::
  "env \<Rightarrow> pydict \<Rightarrow> (string \<times> pyval) list \<Rightarrow> world \<Rightarrow> (exc + result) \<times> world" where
  "call_with_kwargs env data kwargs w =
     (case kwargs of
        [] \<Rightarrow> handle_streaming_response env data None None None w
      | (name, v) # rest \<Rightarrow>
          (Inl TypeError, w))"

text \<open>
  \<^verbatim>\<open>except Exception as e\<close>: the line logged when the HTTP client has a logger,
  and \<^verbatim>\<open>raise e\<close>.
\<close>

definition log_and_reraise ::
  "env \<Rightarrow> string \<Rightarrow> (exc + result) \<times> world \<Rightarrow> (exc + result) \<times> world" where
  "log_and_reraise env message rw =
     (case rw of
        (Inr r, w) \<Rightarrow> (Inr r, w)
      | (Inl e, w) \<Rightarrow>
          if is_Exception e \<and> has_logger env then
            (Inl e, w\<lparr>logger_log := logger_log w @
               [''Chat request failed for message: '' @ take 50 message @ ''...'']\<rparr>)
          else (Inl e, w))"

definition send_message ::
  "env \<Rightarrow> string \<Rightarrow> pydict option \<Rightarrow> bool \<Rightarrow> pyval handler \<Rightarrow> unit handler \<Rightarrow> exc handler
     \<Rightarrow> (string \<times> pyval) list \<Rightarrow> world \<Rightarrow> (exc + result) \<times> world" where
  "send_message env message options streaming on_chunk on_complete on_error kwargs w =
     (let options' = (case options of None \<Rightarrow> Map.empty | Some d \<Rightarrow> d) in
      if \<not> truthy (dict_get options' ''agent'') then
        (Inl (ValidationError ''agent is required'' ''agent''), w)
      else
        (let data = [''message'' \<mapsto> PStr message] ++ options' in
         log_and_reraise env message
           (if streaming \<and> event_source_manager env \<noteq> None \<and> streaming_enabled env then
              call_with_kwargs env data kwargs w
            else
              (let w1 = w\<lparr>http_log := http_log w @ [Post (CHAT env) data]\<rparr> in
               case http_post env (CHAT env) data of
                 Inl e \<Rightarrow> (Inl e, w1)
               | Inr r \<Rightarrow> (Inr (Response r), w1)))))"

subsection \<open>The streaming interface and the control calls\<close>

text \<open>
  \<^verbatim>\<open>_send_streaming_message(data, on_chunk, on_complete, on_error)\<close> (the name
  without its underscore is the public method's) registers the closure
  \<^verbatim>\<open>handle_event\<close> as the callback and returns the stream identifier at once.
  The three handlers are used by that closure alone, on events that arrive after the
  method has returned: they change neither what it returns nor the calls it makes.
\<close>

definition send_streaming_message_inner ::
  "env \<Rightarrow> pydict \<Rightarrow> pydict handler \<Rightarrow> unit handler \<Rightarrow> exc handler \<Rightarrow> world
     \<Rightarrow> (exc + result) \<times> world" where
  "send_streaming_message_inner env data on_chunk on_complete on_error w =
     (case event_source_manager env of
        None \<Rightarrow> (Inl (StreamingResponseError ''EventSourceManager not available''), w)
      | Some m \<Rightarrow>
          (case data ''message'' of
             None \<Rightarrow> (Inl (KeyError ''message''), w)
           | Some msg \<Rightarrow>
               (let w1 = w\<lparr>esm_log := esm_log w @
                           [StartChatStream msg
                              (dict_get_default data ''agent'' (PStr ''''))
                              (dict_get_default data ''model'' (PStr ''''))],
                         now := now w + start_ms m\<rparr> in
                case start_chat_stream m of
                  Inl e \<Rightarrow> (Inl e, w1)
                | Inr stream_id \<Rightarrow> (Inr (StreamId stream_id), w1))))"

text \<open>\<^verbatim>\<open>agent or ''\<close> and \<^verbatim>\<open>model or <default>\<close> on optional strings.\<close>

definition or_else :: "string option \<Rightarrow> string \<Rightarrow> string" where
  "or_else v dflt = (case v of None \<Rightarrow> dflt | Some s \<Rightarrow> if s = [] then dflt else s)"

definition send_streaming_message ::
  "env \<Rightarrow> string \<Rightarrow> string option \<Rightarrow> string option
     \<Rightarrow> pydict handler \<Rightarrow> unit handler \<Rightarrow> exc handler \<Rightarrow> world
     \<Rightarrow> (exc + result) \<times> world" where
  "send_streaming_message env message agent model on_chunk on_complete on_error w =
     (case require_streaming env of
        Some e \<Rightarrow> (Inl e, w)
      | None \<Rightarrow>
          if event_source_manager env = None then
            (Inl (StreamingResponseError
                    ''Streaming not available - EventSourceManager not initialized''), w)
          else
            send_streaming_message_inner env
              [''message'' \<mapsto> PStr message,
               ''agent'' \<mapsto> PStr (or_else agent ''''),
               ''model'' \<mapsto> PStr (or_else model
                  (if system env \<noteq> ''darwin'' then ''unsloth/Qwen3-1.7B-bnb-4bit''
                   else ''mlx-community/Qwen3-1.7B-bnb-4bit''))]
              on_chunk on_complete on_error w)"

text \<open>\<^verbatim>\<open>stop_stream\<close>, \<^verbatim>\<open>pause_stream\<close>, \<^verbatim>\<open>resume_stream\<close>.\<close>

definition stop_stream :: "env \<Rightarrow> string \<Rightarrow> world \<Rightarrow> world" where
  "stop_stream env stream_id w =
     (case event_source_manager env of
        None \<Rightarrow> w
      | Some m \<Rightarrow> w\<lparr>esm_log := esm_log w @ [StopStream stream_id]\<rparr>)"

definition pause_stream :: "env \<Rightarrow> string \<Rightarrow> world \<Rightarrow> world" where
  "pause_stream env stream_id w =
     (case event_source_manager env of
        None \<Rightarrow> w
      | Some m \<Rightarrow> w\<lparr>esm_log := esm_log w @ [PauseStream stream_id]\<rparr>)"

definition resume_stream :: "env \<Rightarrow> string \<Rightarrow> world \<Rightarrow> world" where
  "resume_stream env stream_id w =
     (case event_source_manager env of
        None \<Rightarrow> w
      | Some m \<Rightarrow> w\<lparr>esm_log := esm_log w @ [ResumeStream stream_id]\<rparr>)"

subsection \<open>Example collaborators\<close>

text \<open>
  Concrete collaborators on which the theorems below are instantiated. \<open>demo_esm\<close>
  delivers the two chunks \<^verbatim>\<open>{response: "Hi"}\<close>, \<^verbatim>\<open>{response: " there"}\<close> and
  the event \<^verbatim>\<open>{status: "complete"}\<close> before the first poll, and then reports
  \<^verbatim>\<open>COMPLETED\<close>. \<open>stalled_esm\<close> delivers one chunk during the first sleep and
  never reaches a terminal status. \<open>slow_esm\<close> answers each status poll after 20 s:
  it reports \<^verbatim>\<open>OPEN\<close> twice and would report \<^verbatim>\<open>COMPLETED\<close> at a third poll,
  and it delivers the chunks \<^verbatim>\<open>"par"\<close> and \<^verbatim>\<open>"tial"\<close> and then an event
  without text.
\<close>

definition demo_events :: "event list" where
  "demo_events =
     [DictData [''response'' \<mapsto> PStr ''Hi''],
      DictData [''response'' \<mapsto> PStr '' there''],
      DictData [''status'' \<mapsto> PStr ''complete'']]"

definition demo_esm :: esm where
  "demo_esm =
     \<lparr>start_chat_stream = Inr ''stream-1'',
      start_ms = 3,
      status_at = (\<lambda>k. Inr (PStr ''COMPLETED'')),
      events_during = (\<lambda>k. if k = 0 then demo_events else []),
      poll_ms = (\<lambda>k. 5),
      oversleep_ms = (\<lambda>k. 1)\<rparr>"


definition slow_esm :: esm where
  "slow_esm =
     \<lparr>start_chat_stream = Inr ''stream-3'',
      start_ms = 7,
      status_at = (\<lambda>k. if k < 2 then Inr (PStr ''OPEN'') else Inr (PStr ''COMPLETED'')),
      events_during = (\<lambda>k. if k = 0 then [DictData [''response'' \<mapsto> PStr ''par'']]
                            else if k = 1 then [DictData [''message'' \<mapsto> PStr ''tial'']]
                            else if k = 2 then [DictData [''status'' \<mapsto> PStr ''working'']]
                            else []),
      poll_ms = (\<lambda>k. 20000),
      oversleep_ms = (\<lambda>k. 0)\<rparr>"

definition demo_env :: "esm option \<Rightarrow> env" where
  "demo_env manager =
     \<lparr>http_post = (\<lambda>url data. Inr (DictResponse [''response'' \<mapsto> PStr ''pong''])),
      event_source_manager = manager,
      streaming_enabled = True,
      require_streaming = None,
      CHAT = ''/chat'',
      has_logger = True,
      system = ''x86_64''\<rparr>"

definition world0 :: world where
  "world0 =
     \<lparr>now = 0, http_log = [], esm_log = [], logger_log = [], collected_response = [],
      chunk_calls = [], error_calls = [], escaped = []\<rparr>"

definition demo_options :: pydict where
  "demo_options = [''agent'' \<mapsto> PStr ''general'']"

definition override_options :: pydict where
  "override_options = [''agent'' \<mapsto> PStr ''general'', ''message'' \<mapsto> PStr ''override'']"

subsection \<open>Notions used in the statements\<close>

text \<open>
  \<open>chunks_of evs\<close>: the fragments the chunk handler accepts from the events \<open>evs\<close>,
  in order.
\<close>

definition chunks_of :: "event list \<Rightarrow> pyval list" where
  "chunks_of evs = filter truthy (map chunk_text_of evs)"

text \<open>
  \<open>after_start m data msg w\<close>: the world when \<^verbatim>\<open>start_chat_stream\<close> has returned,
  as \<open>handle_streaming_response\<close> builds it: the collected list is empty, the call is
  logged, and the clock has advanced by the time the call took.
\<close>

definition after_start :: "esm \<Rightarrow> pydict \<Rightarrow> pyval \<Rightarrow> world \<Rightarrow> world" where
  "after_start m data msg w =
     w\<lparr>collected_response := [],
       esm_log := esm_log w @
         [StartChatStream msg (dict_get_default data ''agent'' (PStr ''''))
            (dict_get_default data ''model'' (PStr ''''))],
       now := now w + start_ms m\<rparr>"

text \<open>
  \<open>elapsed m k\<close>: the time since \<^verbatim>\<open>start_time\<close> at the head of the \<open>k\<close>-th
  iteration of the waiting loop, when no earlier poll has ended the wait: each earlier
  iteration took its poll, the sleep of 0.1 s and the oversleep.
\<close>

fun elapsed :: "esm \<Rightarrow> nat \<Rightarrow> nat" where
  "elapsed m 0 = 0"
| "elapsed m (Suc k) = elapsed m k + poll_ms m k + sleep_ms + oversleep_ms m k"

section \<open>Properties of the handlers and of the waiting loop\<close>

lemma collected_deliver:
  "collected_response (deliver on_chunk on_error evs w) = collected_response w @ chunks_of evs"
  by (induction evs arbitrary: w)
     (auto simp: chunks_of_def default_chunk_handler_def chunk_body_def Let_def
           split: prod.splits option.splits if_splits)

lemma chunk_calls_deliver_Some:
  "chunk_calls (deliver (Some f) on_error evs w) = chunk_calls w @ chunks_of evs"
  by (induction evs arbitrary: w)
     (auto simp: chunks_of_def default_chunk_handler_def chunk_body_def Let_def
           split: prod.splits option.splits if_splits)

lemma chunk_calls_deliver_None:
  "chunk_calls (deliver None on_error evs w) = chunk_calls w"
  by (induction evs arbitrary: w)
     (auto simp: default_chunk_handler_def chunk_body_def Let_def
           split: prod.splits option.splits if_splits)

lemma logs_deliver:
  "esm_log (deliver on_chunk on_error evs w) = esm_log w"
  "http_log (deliver on_chunk on_error evs w) = http_log w"
  "logger_log (deliver on_chunk on_error evs w) = logger_log w"
  by (induction evs arbitrary: w;
      auto simp: default_chunk_handler_def chunk_body_def Let_def
           split: prod.splits option.splits if_splits)+

lemma wait_loop_chunk_calls_Some:
  "chunk_calls w = pre @ collected_response w \<Longrightarrow>
   chunk_calls (snd (wait_loop m (Some f) on_error sid start k w)) =
     pre @ collected_response (snd (wait_loop m (Some f) on_error sid start k w))"
proof (induction m "Some f :: pyval handler" on_error sid start k w rule: wait_loop.induct)
  case (1 m on_error sid start k w)
  show ?case
    apply (subst (1 2) wait_loop.simps)
    using "1"
    by (auto simp: Let_def collected_deliver chunk_calls_deliver_Some split: sum.splits)
qed

lemma wait_loop_chunk_calls_None:
  "chunk_calls (snd (wait_loop m None on_error sid start k w)) = chunk_calls w"
proof (induction m "None :: pyval handler" on_error sid start k w rule: wait_loop.induct)
  case (1 m on_error sid start k w)
  show ?case
    apply (subst wait_loop.simps)
    using "1"
    by (auto simp: Let_def chunk_calls_deliver_None split: sum.splits)
qed

lemma wait_loop_http_log:
  "http_log (snd (wait_loop m on_chunk on_error sid start k w)) = http_log w"
proof (induction m on_chunk on_error sid start k w rule: wait_loop.induct)
  case (1 m on_chunk on_error sid start k w)
  show ?case
    apply (subst wait_loop.simps)
    using "1"
    by (auto simp: Let_def logs_deliver split: sum.splits)
qed

lemma wait_loop_esm_log:
  "\<exists>n. esm_log (snd (wait_loop m on_chunk on_error sid start k w)) =
         esm_log w @ replicate n (GetStreamStatus sid)"
proof (induction m on_chunk on_error sid start k w rule: wait_loop.induct)
  case (1 m on_chunk on_error sid start k w)
  show ?case
  proof (cases "now w - start < timeout_ms")
    case False
    then show ?thesis
      by (subst wait_loop.simps) (simp add: exI [of _ 0])
  next
    case True
    note t = this
    show ?thesis
    proof (cases "status_at m k")
      case (Inl e)
      with t show ?thesis
        by (subst wait_loop.simps) (simp add: Let_def exI [of _ 1])
    next
      case (Inr status)
      show ?thesis
      proof (cases "status \<in> set terminal_statuses")
        case True
        with t Inr show ?thesis
          by (subst wait_loop.simps) (simp add: Let_def exI [of _ 1])
      next
        case False
        from "1" [OF t refl Inr False] obtain n where
          "esm_log (snd (wait_loop m on_chunk on_error sid start (Suc k)
             (deliver on_chunk on_error (events_during m (Suc k))
               (w\<lparr>esm_log := esm_log w @ [GetStreamStatus sid], now := now w + poll_ms m k,
                   now := now (w\<lparr>esm_log := esm_log w @ [GetStreamStatus sid],
                                 now := now w + poll_ms m k\<rparr>) + sleep_ms + oversleep_ms m k\<rparr>)))) =
           esm_log w @ replicate (Suc n) (GetStreamStatus sid)"
          by (auto simp: logs_deliver replicate_append_same)
        with t Inr False show ?thesis
          by (subst wait_loop.simps) (auto simp: Let_def simp del: replicate_Suc)
      qed
    qed
  qed
qed




lemma py_join_Inr:
  "py_join vs = Inr s \<Longrightarrow> \<exists>frags. vs = map PStr frags \<and> s = concat frags"
proof (induction vs arbitrary: s rule: py_join.induct)
  case 1
  then show ?case by simp
next
  case (2 t vs)
  from "2.prems" obtain r where r: "py_join vs = Inr r" "s = t @ r"
    by (auto split: sum.splits)
  from "2.IH" [OF r(1)] obtain frags where "vs = map PStr frags" "r = concat frags"
    by blast
  with r have "PStr t # vs = map PStr (t # frags) \<and> s = concat (t # frags)"
    by simp
  then show ?case by (rule exI [of _ "t # frags"])
qed simp_all

lemma first_key_priority:
  "i < length keys \<Longrightarrow> d (keys ! i) = Some v \<Longrightarrow> \<forall>j<i. d (keys ! j) = None \<Longrightarrow>
   first_key keys d = Some (py_str v)"
proof (induction keys arbitrary: i)
  case Nil
  then show ?case by simp
next
  case (Cons key keys)
  show ?case
  proof (cases i)
    case 0
    with Cons.prems show ?thesis by simp
  next
    case (Suc i')
    from Cons.prems Suc have "d key = None"
      by auto
    moreover have "first_key keys d = Some (py_str v)"
    proof (rule Cons.IH [of i'])
      show "i' < length keys" using Cons.prems Suc by simp
      show "d (keys ! i') = Some v" using Cons.prems Suc by simp
      show "\<forall>j<i'. d (keys ! j) = None"
      proof (intro allI impI)
        fix j assume "j < i'"
        then have "Suc j < i" using Suc by simp
        with Cons.prems(3) have "d ((key # keys) ! Suc j) = None" by blast
        then show "d (keys ! j) = None" by simp
      qed
    qed
    ultimately show ?thesis by simp
  qed
qed

lemma after_start_fields:
  "collected_response (after_start m data msg w) = []"
  "esm_log (after_start m data msg w) =
     esm_log w @ [StartChatStream msg (dict_get_default data ''agent'' (PStr ''''))
                    (dict_get_default data ''model'' (PStr ''''))]"
  "now (after_start m data msg w) = now w + start_ms m"
  "http_log (after_start m data msg w) = http_log w"
  "chunk_calls (after_start m data msg w) = chunk_calls w"
  by (simp_all add: after_start_def)

lemma handle_unfold:
  assumes "event_source_manager env = Some m" and "data ''message'' = Some msg"
    and "start_chat_stream m = Inr sid"
  shows "handle_streaming_response env data on_chunk on_complete on_error w =
     (let w2 = deliver on_chunk on_error (events_during m 0) (after_start m data msg w);
          r = wait_loop m on_chunk on_error sid (now w2) 0 w2
      in (case fst r of
            Some e \<Rightarrow> Inl e
          | None \<Rightarrow> (case py_join (collected_response (snd r)) of
                       Inl e \<Rightarrow> Inl e
                     | Inr s \<Rightarrow> Inr (Text s)),
          snd r))"
  using assms
  by (simp add: handle_streaming_response_def after_start_def Let_def split_beta
           split: option.splits sum.splits)

lemma handle_chunk_calls_Some:
  assumes "event_source_manager env \<noteq> None"
  shows "chunk_calls (snd (handle_streaming_response env data (Some f) on_complete on_error w)) =
     chunk_calls w @
     collected_response (snd (handle_streaming_response env data (Some f) on_complete on_error w))"
proof -
  from assms obtain m where m: "event_source_manager env = Some m"
    by blast
  show ?thesis
  proof (cases "data ''message''")
    case None
    with m show ?thesis by (simp add: handle_streaming_response_def)
  next
    case (Some msg)
    note msg = this
    show ?thesis
    proof (cases "start_chat_stream m")
      case (Inl e)
      with m msg show ?thesis by (simp add: handle_streaming_response_def)
    next
      case (Inr sid)
      let ?w2 = "deliver (Some f) on_error (events_during m 0) (after_start m data msg w)"
      let ?r = "wait_loop m (Some f) on_error sid (now ?w2) 0 ?w2"
      have "chunk_calls ?w2 = chunk_calls w @ collected_response ?w2"
        by (simp add: chunk_calls_deliver_Some collected_deliver after_start_fields)
      then have "chunk_calls (snd ?r) = chunk_calls w @ collected_response (snd ?r)"
        by (rule wait_loop_chunk_calls_Some)
      then show ?thesis
        by (simp add: handle_unfold [of env m data msg sid, OF m msg Inr] Let_def)
    qed
  qed
qed

text \<open>
  No call of \<^verbatim>\<open>send_message\<close> ever invokes the caller's \<^verbatim>\<open>on_chunk\<close>: the
  streaming branch runs the chunk handler without it.
\<close>

lemma handle_chunk_calls_None:
  "chunk_calls (snd (handle_streaming_response env data None on_complete on_error w)) =
     chunk_calls w"
proof (cases "event_source_manager env")
  case None
  then show ?thesis by (simp add: handle_streaming_response_def)
next
  case (Some m)
  note m = this
  show ?thesis
  proof (cases "data ''message''")
    case None
    with m show ?thesis by (simp add: handle_streaming_response_def)
  next
    case (Some msg)
    note msg = this
    show ?thesis
    proof (cases "start_chat_stream m")
      case (Inl e)
      with m msg show ?thesis by (simp add: handle_streaming_response_def)
    next
      case (Inr sid)
      show ?thesis
        by (simp add: handle_unfold [of env m data msg sid, OF m msg Inr] Let_def
              wait_loop_chunk_calls_None chunk_calls_deliver_None after_start_fields)
    qed
  qed
qed

lemma send_message_never_calls_on_chunk:
  "chunk_calls (snd (send_message env message options streaming on_chunk on_complete on_error
                       kwargs w)) = chunk_calls w"
proof -
  have "chunk_calls (snd (log_and_reraise env message rw)) = chunk_calls (snd rw)" for rw
    by (cases rw) (auto simp: log_and_reraise_def split: sum.splits)
  moreover have "chunk_calls (snd (call_with_kwargs env data kwargs w)) = chunk_calls w" for data
    by (cases kwargs) (auto simp: call_with_kwargs_def handle_chunk_calls_None)
  ultimately show ?thesis
    by (auto simp: send_message_def Let_def split: sum.splits)
qed

lemma chunks_of_append: "chunks_of (xs @ ys) = chunks_of xs @ chunks_of ys"
  by (simp add: chunks_of_def)

lemma py_join_strings: "py_join (map PStr frags) = Inr (concat frags)"
  by (induction frags) simp_all

lemma py_join_chunks_of_strings:
  assumes "map chunk_text_of evs = map PStr frags"
  shows "py_join (chunks_of evs) = Inr (concat frags)"
proof -
  have "filter truthy (map PStr fs) = map PStr (filter (\<lambda>s. s \<noteq> []) fs)" for fs
    by (induction fs) simp_all
  moreover have "concat (filter (\<lambda>s. s \<noteq> []) fs) = concat fs" for fs :: "string list"
    by (induction fs) simp_all
  ultimately show ?thesis
    using assms by (simp add: chunks_of_def py_join_strings)
qed

text \<open>
  The run of the waiting loop that ends by the clock: the timeout has elapsed at the
  head of iteration \<open>n\<close> and not before, and none of the \<open>n\<close> polls made returned a
  terminal status or raised.
\<close>

lemma wait_loop_times_out:
  assumes late: "timeout_ms \<le> elapsed m n"
    and early: "\<forall>j<n. elapsed m j < timeout_ms"
    and open_: "\<forall>j<n. \<exists>s. status_at m j = Inr s \<and> s \<notin> set terminal_statuses"
  shows "k \<le> n \<Longrightarrow> now w = start + elapsed m k \<Longrightarrow>
         fst (wait_loop m on_chunk on_error sid start k w) = None \<and>
         esm_log (snd (wait_loop m on_chunk on_error sid start k w)) =
           esm_log w @ replicate (n - k) (GetStreamStatus sid) \<and>
         collected_response (snd (wait_loop m on_chunk on_error sid start k w)) =
           collected_response w @ chunks_of (concat (map (events_during m) [Suc k..<Suc n])) \<and>
         http_log (snd (wait_loop m on_chunk on_error sid start k w)) = http_log w \<and>
         now (snd (wait_loop m on_chunk on_error sid start k w)) = start + elapsed m n"
proof (induction "n - k" arbitrary: k w)
  case 0
  then have "k = n" by simp
  with "0.prems" late have "\<not> now w - start < timeout_ms"
    by simp
  with \<open>k = n\<close> "0.prems" show ?case
    by (subst (1 2 3 4 5) wait_loop.simps) (simp add: chunks_of_def)
next
  case (Suc d)
  then have kn: "k < n" by simp
  with early "Suc.prems" have run: "now w - start < timeout_ms"
    by simp
  from open_ kn obtain s where s: "status_at m k = Inr s" "s \<notin> set terminal_statuses"
    by blast
  let ?w' = "deliver on_chunk on_error (events_during m (Suc k))
               (w\<lparr>esm_log := esm_log w @ [GetStreamStatus sid],
                  now := now w + poll_ms m k + sleep_ms + oversleep_ms m k\<rparr>)"
  have step: "wait_loop m on_chunk on_error sid start k w =
              wait_loop m on_chunk on_error sid start (Suc k) ?w'"
    using run s by (subst wait_loop.simps) (simp add: Let_def)
  have d: "d = n - Suc k" and le: "Suc k \<le> n"
    using Suc.hyps(2) kn by simp_all
  have t: "now ?w' = start + elapsed m (Suc k)"
    using "Suc.prems"(2) by (simp add: now_deliver)
  note ih = Suc.hyps(1) [OF d le t]
  have up: "[Suc k..<Suc n] = Suc k # [Suc (Suc k)..<Suc n]"
    using kn by (simp add: upt_conv_Cons)
  have rp: "replicate (n - k) (GetStreamStatus sid) =
            GetStreamStatus sid # replicate (n - Suc k) (GetStreamStatus sid)"
    using kn by (cases "n - k") simp_all
  show ?case
    unfolding step
    using ih by (simp add: logs_deliver collected_deliver chunks_of_append up rp del: upt_Suc)
qed

section \<open>The claims\<close>

text \<open>
  Claim C1. For every call to \<^verbatim>\<open>send_message\<close>: if the options mapping is absent, or
  its \<^verbatim>\<open>'agent'\<close> entry is absent or empty (falsy: the test is
  \<^verbatim>\<open>not options.get("agent")\<close>), the call raises \<open>ValidationError\<close> and leaves the
  world as it found it: nothing is added to \<open>http_log\<close> or \<open>esm_log\<close>, so no request
  is issued to the HTTP client and no stream is started.
\<close>

theorem send_message_requires_agent:
  assumes "options = None \<or>
           (\<exists>d. options = Some d \<and>
                (d ''agent'' = None \<or> (\<exists>v. d ''agent'' = Some v \<and> \<not> truthy v)))"
  shows "send_message env message options streaming on_chunk on_complete on_error kwargs w =
           (Inl (ValidationError ''agent is required'' ''agent''), w)"
  using assms by (auto simp: send_message_def dict_get_def)

theorem send_message_requires_agent_witness:
  "send_message (demo_env (Some demo_esm)) ''Hello'' None True None None None [] world0 =
     (Inl (ValidationError ''agent is required'' ''agent''), world0) \<and>
   send_message (demo_env (Some demo_esm)) ''Hello''
       (Some [''agent'' \<mapsto> PStr '''', ''model'' \<mapsto> PStr ''m'']) False None None None [] world0 =
     (Inl (ValidationError ''agent is required'' ''agent''), world0) \<and>
   http_log world0 = [] \<and> esm_log world0 = []"
proof -
  have a: "(None :: pydict option) = None \<or>
           (\<exists>d. (None :: pydict option) = Some d \<and>
                (d ''agent'' = None \<or> (\<exists>v. d ''agent'' = Some v \<and> \<not> truthy v)))"
    by simp
  have b: "Some [''agent'' \<mapsto> PStr '''', ''model'' \<mapsto> PStr ''m''] = None \<or>
           (\<exists>d. Some [''agent'' \<mapsto> PStr '''', ''model'' \<mapsto> PStr ''m''] = Some d \<and>
                (d ''agent'' = None \<or> (\<exists>v. d ''agent'' = Some v \<and> \<not> truthy v)))"
    by simp
  show ?thesis
    using send_message_requires_agent [OF a] send_message_requires_agent [OF b]
    by (simp add: world0_def)
qed

text \<open>
  Claim C2. For every streaming exchange handled by the synchronous collect path
  (\<^verbatim>\<open>_handle_streaming_response\<close> with an \<^verbatim>\<open>on_chunk\<close> handler): the text it
  returns is the concatenation, in delivery order, of exactly the fragments that were
  passed to \<^verbatim>\<open>on_chunk\<close> during the call. No fragment is skipped, duplicated or
  reordered between the accumulator and the callback.
\<close>

theorem collected_text_is_on_chunk_fragments:
  assumes "fst (handle_streaming_response env data (Some f) on_complete on_error w) =
             Inr (Text s)"
  shows "\<exists>frags.
           chunk_calls (snd (handle_streaming_response env data (Some f) on_complete on_error w))
             = chunk_calls w @ map PStr frags \<and>
           s = concat frags"
proof -
  let ?h = "handle_streaming_response env data (Some f) on_complete on_error w"
  from assms have j: "py_join (collected_response (snd ?h)) = Inr s"
    by (auto simp: handle_streaming_response_def Let_def
             split: option.splits sum.splits prod.splits)
  then obtain frags where f: "collected_response (snd ?h) = map PStr frags" "s = concat frags"
    using py_join_Inr by blast
  from assms have "event_source_manager env \<noteq> None"
    by (auto simp: handle_streaming_response_def split: option.splits)
  then have "chunk_calls (snd ?h) = chunk_calls w @ collected_response (snd ?h)"
    by (rule handle_chunk_calls_Some)
  with f have "chunk_calls (snd ?h) = chunk_calls w @ map PStr frags \<and> s = concat frags"
    by simp
  then show ?thesis by (rule exI [of _ frags])
qed

theorem collected_text_is_on_chunk_fragments_witness:
  "fst (handle_streaming_response (demo_env (Some demo_esm))
          ([''message'' \<mapsto> PStr ''Hello''] ++ demo_options)
          (Some (\<lambda>c. None)) None None world0) = Inr (Text ''Hi there'') \<and>
   (\<exists>frags.
      chunk_calls (snd (handle_streaming_response (demo_env (Some demo_esm))
          ([''message'' \<mapsto> PStr ''Hello''] ++ demo_options)
          (Some (\<lambda>c. None)) None None world0)) = chunk_calls world0 @ map PStr frags \<and>
      ''Hi there'' = concat frags) \<and>
   chunk_calls (snd (handle_streaming_response (demo_env (Some demo_esm))
          ([''message'' \<mapsto> PStr ''Hello''] ++ demo_options)
          (Some (\<lambda>c. None)) None None world0)) = [PStr ''Hi'', PStr '' there'']"
proof -
  have run: "handle_streaming_response (demo_env (Some demo_esm))
          ([''message'' \<mapsto> PStr ''Hello''] ++ demo_options)
          (Some (\<lambda>c. None)) None None world0 =
        (Inr (Text ''Hi there''),
         world0\<lparr>now := 8,
           esm_log := [StartChatStream (PStr ''Hello'') (PStr ''general'') (PStr ''''),
                       GetStreamStatus ''stream-1''],
           collected_response := [PStr ''Hi'', PStr '' there''],
           chunk_calls := [PStr ''Hi'', PStr '' there'']\<rparr>)"
    by (simp add: handle_streaming_response_def demo_env_def demo_esm_def demo_events_def
          world0_def default_chunk_handler_def chunk_body_def dict_get_default_def
          demo_options_def wait_loop.simps timeout_ms_def terminal_statuses_def Let_def)
  then have r: "fst (handle_streaming_response (demo_env (Some demo_esm))
          ([''message'' \<mapsto> PStr ''Hello''] ++ demo_options)
          (Some (\<lambda>c. None)) None None world0) = Inr (Text ''Hi there'')"
    by simp
  from collected_text_is_on_chunk_fragments [OF r] r run show ?thesis
    by simp
qed

text \<open>
  Claim C3 says that a call of the facade \<^verbatim>\<open>send_message\<close> with streaming enabled
  and a caller-supplied \<^verbatim>\<open>on_chunk\<close> hands every non-empty fragment to that
  handler. The code does not: \<^verbatim>\<open>send_message\<close> takes \<^verbatim>\<open>on_chunk\<close>,
  \<^verbatim>\<open>on_complete\<close> and \<^verbatim>\<open>on_error\<close> and then calls
  \<^verbatim>\<open>self._handle_streaming_response(data, **kwargs)\<close> without them (the line that
  passed them on is commented out above it). Here the exchange of two chunks
  \<^verbatim>\<open>"Hi"\<close>, \<^verbatim>\<open>" there"\<close> returns \<^verbatim>\<open>"Hi there"\<close>, both fragments are
  collected, and the caller's handler is called with neither.
\<close>

theorem send_message_drops_on_chunk:
  "fst (send_message (demo_env (Some demo_esm)) ''Hello'' (Some demo_options) True
          (Some (\<lambda>c. None)) None None [] world0) = Inr (Text ''Hi there'') \<and>
   chunk_calls (snd (send_message (demo_env (Some demo_esm)) ''Hello'' (Some demo_options) True
          (Some (\<lambda>c. None)) None None [] world0)) = [] \<and>
   collected_response (snd (send_message (demo_env (Some demo_esm)) ''Hello'' (Some demo_options)
          True (Some (\<lambda>c. None)) None None [] world0)) = [PStr ''Hi'', PStr '' there'']"
  by (simp add: send_message_def log_and_reraise_def call_with_kwargs_def dict_get_def
        handle_streaming_response_def demo_env_def demo_esm_def demo_events_def
        world0_def default_chunk_handler_def chunk_body_def dict_get_default_def
        demo_options_def wait_loop.simps timeout_ms_def terminal_statuses_def Let_def)




text \<open>
  Claim C5. If the timeout elapses before the stream reaches a terminal status (the
  timeout has elapsed at the head of iteration \<open>n\<close> of the waiting loop and not before,
  and none of the \<open>n\<close> polls made until then returned a terminal status), the waiter
  returns the partial text: the join of the fragments extracted from the events
  delivered so far, those of \<open>events_during m 0\<close> up to \<open>events_during m n\<close>, in
  order; when these events carry strings \<open>frags\<close> under the key that is read, the text
  returned is their concatenation. It changes nothing on the session or the stream: the
  calls it issues to the event source manager are \<^verbatim>\<open>start_chat_stream\<close> followed by
  exactly \<open>n\<close> \<^verbatim>\<open>get_stream_status\<close> polls, so it issues no stop, pause or resume
  and leaves the stream open, and it issues no HTTP request.
\<close>

theorem timeout_returns_partial_text_without_stopping:
  assumes m: "event_source_manager env = Some m"
    and msg: "data ''message'' = Some msg"
    and sid: "start_chat_stream m = Inr sid"
    and late: "timeout_ms \<le> elapsed m n"
    and early: "\<forall>j<n. elapsed m j < timeout_ms"
    and open_: "\<forall>j<n. \<exists>s. status_at m j = Inr s \<and> s \<notin> set terminal_statuses"
  shows "fst (handle_streaming_response env data on_chunk on_complete on_error w) =
           (case py_join (filter truthy (map chunk_text_of
                   (concat (map (events_during m) [0..<Suc n])))) of
              Inl e \<Rightarrow> Inl e
            | Inr s \<Rightarrow> Inr (Text s)) \<and>
         (\<forall>frags. map chunk_text_of (concat (map (events_during m) [0..<Suc n])) = map PStr frags
            \<longrightarrow> fst (handle_streaming_response env data on_chunk on_complete on_error w) =
                  Inr (Text (concat frags))) \<and>
         esm_log (snd (handle_streaming_response env data on_chunk on_complete on_error w)) =
           esm_log w @
           StartChatStream msg (dict_get_default data ''agent'' (PStr ''''))
             (dict_get_default data ''model'' (PStr '''')) #
           replicate n (GetStreamStatus sid) \<and>
         http_log (snd (handle_streaming_response env data on_chunk on_complete on_error w)) =
           http_log w \<and>
         now (snd (handle_streaming_response env data on_chunk on_complete on_error w)) =
           now w + start_ms m + elapsed m n"
proof -
  let ?evs = "concat (map (events_during m) [0..<Suc n])"
  let ?w2 = "deliver on_chunk on_error (events_during m 0) (after_start m data msg w)"
  let ?r = "wait_loop m on_chunk on_error sid (now ?w2) 0 ?w2"
  let ?h = "handle_streaming_response env data on_chunk on_complete on_error w"
  have h: "?h = (case fst ?r of
                   Some e \<Rightarrow> Inl e
                 | None \<Rightarrow> (case py_join (collected_response (snd ?r)) of
                              Inl e \<Rightarrow> Inl e
                            | Inr s \<Rightarrow> Inr (Text s)),
                 snd ?r)"
    by (simp add: handle_unfold [of env m data msg sid, OF m msg sid] Let_def)
  have "now ?w2 = now ?w2 + elapsed m 0"
    by simp
  with wait_loop_times_out [OF late early open_, of 0 ?w2 "now ?w2" on_chunk on_error sid]
  have r: "fst ?r = None"
    "esm_log (snd ?r) = esm_log ?w2 @ replicate n (GetStreamStatus sid)"
    "collected_response (snd ?r) =
       collected_response ?w2 @ chunks_of (concat (map (events_during m) [Suc 0..<Suc n]))"
    "http_log (snd ?r) = http_log ?w2"
    "now (snd ?r) = now ?w2 + elapsed m n"
    by simp_all
  have "[0..<Suc n] = 0 # [Suc 0..<Suc n]"
    by (simp add: upt_conv_Cons)
  then have "chunks_of ?evs =
        chunks_of (events_during m 0) @ chunks_of (concat (map (events_during m) [Suc 0..<Suc n]))"
    by (simp add: chunks_of_append del: upt_Suc)
  with r(3) have col: "collected_response (snd ?r) = chunks_of ?evs"
    by (simp add: collected_deliver after_start_fields)
  have c1: "fst ?h = (case py_join (filter truthy (map chunk_text_of ?evs)) of
                        Inl e \<Rightarrow> Inl e | Inr s \<Rightarrow> Inr (Text s))"
    using r(1) col by (simp add: h chunks_of_def)
  have c2: "\<forall>frags. map chunk_text_of ?evs = map PStr frags \<longrightarrow>
                    fst ?h = Inr (Text (concat frags))"
  proof (intro allI impI)
    fix frags
    assume "map chunk_text_of ?evs = map PStr frags"
    then have "py_join (chunks_of ?evs) = Inr (concat frags)"
      by (rule py_join_chunks_of_strings)
    with r(1) col show "fst ?h = Inr (Text (concat frags))"
      by (simp add: h)
  qed
  have c3: "esm_log (snd ?h) =
              esm_log w @
              StartChatStream msg (dict_get_default data ''agent'' (PStr ''''))
                (dict_get_default data ''model'' (PStr '''')) #
              replicate n (GetStreamStatus sid)"
    using r(2) by (simp add: h logs_deliver after_start_fields)
  have c4: "http_log (snd ?h) = http_log w"
    using r(4) by (simp add: h logs_deliver after_start_fields)
  have c5: "now (snd ?h) = now w + start_ms m + elapsed m n"
    using r(5) by (simp add: h now_deliver after_start_fields)
  from c1 c2 c3 c4 c5 show ?thesis
    by (intro conjI)
qed

theorem timeout_returns_partial_text_without_stopping_witness:
  "fst (handle_streaming_response (demo_env (Some slow_esm))
          ([''message'' \<mapsto> PStr ''Hello''] ++ demo_options) None None None world0) =
     Inr (Text ''partial'') \<and>
   esm_log (snd (handle_streaming_response (demo_env (Some slow_esm))
          ([''message'' \<mapsto> PStr ''Hello''] ++ demo_options) None None None world0)) =
     [StartChatStream (PStr ''Hello'') (PStr ''general'') (PStr ''''),
      GetStreamStatus ''stream-3'', GetStreamStatus ''stream-3''] \<and>
   http_log (snd (handle_streaming_response (demo_env (Some slow_esm))
          ([''message'' \<mapsto> PStr ''Hello''] ++ demo_options) None None None world0)) = [] \<and>
   now (snd (handle_streaming_response (demo_env (Some slow_esm))
          ([''message'' \<mapsto> PStr ''Hello''] ++ demo_options) None None None world0)) = 40207 \<and>
   status_at slow_esm 2 = Inr (PStr ''COMPLETED'')"
proof -
  let ?h = "handle_streaming_response (demo_env (Some slow_esm))
          ([''message'' \<mapsto> PStr ''Hello''] ++ demo_options) None None None world0"
  have m: "event_source_manager (demo_env (Some slow_esm)) = Some slow_esm"
    by (simp add: demo_env_def)
  have msg: "([''message'' \<mapsto> PStr ''Hello''] ++ demo_options) ''message'' = Some (PStr ''Hello'')"
    by (simp add: demo_options_def)
  have sid: "start_chat_stream slow_esm = Inr ''stream-3''"
    by (simp add: slow_esm_def)
  have sm: "start_ms slow_esm = 7"
    by (simp add: slow_esm_def)
  have e1: "elapsed slow_esm (Suc 0) = 20100"
    by (simp add: slow_esm_def sleep_ms_def)
  have e2: "elapsed slow_esm 2 = 40200"
    by (simp add: numeral_2_eq_2 slow_esm_def sleep_ms_def)
  have late: "timeout_ms \<le> elapsed slow_esm 2"
    by (simp add: e2 timeout_ms_def)
  have early: "\<forall>j<2. elapsed slow_esm j < timeout_ms"
    using e1 by (auto simp: less_Suc_eq numeral_2_eq_2 timeout_ms_def)
  have open_: "\<forall>j<2. \<exists>s. status_at slow_esm j = Inr s \<and> s \<notin> set terminal_statuses"
    by (simp add: slow_esm_def terminal_statuses_def)
  have frags: "map chunk_text_of (concat (map (events_during slow_esm) [0..<Suc 2])) =
               map PStr [''par'', ''tial'', '''']"
    by (simp add: numeral_2_eq_2 slow_esm_def)
  note th = timeout_returns_partial_text_without_stopping
            [where env = "demo_env (Some slow_esm)" and m = slow_esm
               and data = "[''message'' \<mapsto> PStr ''Hello''] ++ demo_options"
               and msg = "PStr ''Hello''" and sid = "''stream-3''" and n = 2
               and on_chunk = None and on_complete = None and on_error = None
               and w = world0, OF m msg sid late early open_]
  have a: "fst ?h = Inr (Text ''partial'')"
    using th [THEN conjunct2, THEN conjunct1, rule_format, OF frags] by simp
  have b: "esm_log (snd ?h) =
             [StartChatStream (PStr ''Hello'') (PStr ''general'') (PStr ''''),
              GetStreamStatus ''stream-3'', GetStreamStatus ''stream-3'']"
    using th [THEN conjunct2, THEN conjunct2, THEN conjunct1]
    by (simp add: world0_def demo_options_def dict_get_default_def numeral_2_eq_2)
  have c: "http_log (snd ?h) = []"
    using th [THEN conjunct2, THEN conjunct2, THEN conjunct2, THEN conjunct1]
    by (simp add: world0_def)
  have d: "now (snd ?h) = 40207"
    using th [THEN conjunct2, THEN conjunct2, THEN conjunct2, THEN conjunct2]
    by (simp add: world0_def e2 sm)
  have e: "status_at slow_esm 2 = Inr (PStr ''COMPLETED'')"
    by (simp add: slow_esm_def)
  from a b c d e show ?thesis
    by (intro conjI)
qed

text \<open>
  Claim C6 says that a streaming send with no event source manager configured fails
  fast with a transport-unavailable error rather than proceeding by another path.
  \<^verbatim>\<open>send_message\<close> with \<^verbatim>\<open>streaming=True\<close> does proceed by another path: its
  guard \<^verbatim>\<open>streaming and self.event_source_manager and ...\<close> is false, and the
  message goes out as an ordinary HTTP POST, whose response is returned.
\<close>

theorem streaming_without_manager_counterexample:
  "send_message (demo_env None) ''Hello'' (Some demo_options) True None None None [] world0 =
     (Inr (Response (DictResponse [''response'' \<mapsto> PStr ''pong''])),
      world0\<lparr>http_log := [Post ''/chat'' ([''message'' \<mapsto> PStr ''Hello''] ++ demo_options)]\<rparr>)"
  by (simp add: send_message_def log_and_reraise_def dict_get_def demo_env_def
        demo_options_def world0_def)

text \<open>
  Claim C6, amended. When no event source manager is configured, the streaming methods
  \<^verbatim>\<open>_handle_streaming_response\<close> and \<^verbatim>\<open>_send_streaming_message\<close> raise
  \<open>StreamingResponseError\<close> and leave the world as it was (no stream call, no HTTP
  request); \<^verbatim>\<open>send_streaming_message\<close> raises too, the error of its feature gate
  if the gate refuses the call and \<open>StreamingResponseError\<close> otherwise; and
  \<^verbatim>\<open>send_message\<close> with \<^verbatim>\<open>streaming=True\<close> behaves exactly as with
  \<^verbatim>\<open>streaming=False\<close>: it falls back to the HTTP request.
\<close>

theorem no_manager_streaming:
  assumes "event_source_manager env = None"
  shows "handle_streaming_response env data on_chunk on_complete on_error w =
           (Inl (StreamingResponseError ''EventSourceManager not available''), w) \<and>
         send_streaming_message_inner env data on_chunk_data on_complete on_error w =
           (Inl (StreamingResponseError ''EventSourceManager not available''), w) \<and>
         send_streaming_message env message agent model on_chunk_data on_complete on_error w =
           (Inl (case require_streaming env of
                   Some e \<Rightarrow> e
                 | None \<Rightarrow> StreamingResponseError
                     ''Streaming not available - EventSourceManager not initialized''), w) \<and>
         send_message env message options True on_chunk on_complete on_error kwargs w =
           send_message env message options False on_chunk on_complete on_error kwargs w"
proof -
  have a: "handle_streaming_response env data on_chunk on_complete on_error w =
             (Inl (StreamingResponseError ''EventSourceManager not available''), w)"
    using assms by (simp add: handle_streaming_response_def)
  have b: "send_streaming_message_inner env data on_chunk_data on_complete on_error w =
             (Inl (StreamingResponseError ''EventSourceManager not available''), w)"
    using assms by (simp add: send_streaming_message_inner_def)
  have c: "send_streaming_message env message agent model on_chunk_data on_complete on_error w =
             (Inl (case require_streaming env of
                     Some e \<Rightarrow> e
                   | None \<Rightarrow> StreamingResponseError
                       ''Streaming not available - EventSourceManager not initialized''), w)"
    using assms by (simp add: send_streaming_message_def split: option.splits)
  have d: "send_message env message options True on_chunk on_complete on_error kwargs w =
             send_message env message options False on_chunk on_complete on_error kwargs w"
    using assms by (simp add: send_message_def Let_def)
  from a b c d show ?thesis
    by (intro conjI)
qed

theorem no_manager_streaming_witness:
  "send_streaming_message (demo_env None) ''Hello'' (Some ''general'') None None None None world0 =
     (Inl (StreamingResponseError
             ''Streaming not available - EventSourceManager not initialized''), world0) \<and>
   handle_streaming_response (demo_env None) ([''message'' \<mapsto> PStr ''Hello''] ++ demo_options)
       None None None world0 =
     (Inl (StreamingResponseError ''EventSourceManager not available''), world0) \<and>
   send_message (demo_env None) ''Hello'' (Some demo_options) True None None None [] world0 =
     send_message (demo_env None) ''Hello'' (Some demo_options) False None None None [] world0"
proof -
  have m: "event_source_manager (demo_env None) = None"
    by (simp add: demo_env_def)
  show ?thesis
    using no_manager_streaming
            [OF m, where data = "[''message'' \<mapsto> PStr ''Hello''] ++ demo_options"
               and on_chunk = None and on_chunk_data = None and on_complete = None and on_error = None
               and w = world0 and message = "''Hello''" and agent = "Some ''general''" and model = None
               and options = "Some demo_options" and kwargs = "[]"]
    by (simp add: demo_env_def)
qed

text \<open>
  Claim C7 says that the text extracted from an event payload is the value of the first
  key present in the order \<^verbatim>\<open>'response'\<close>, \<^verbatim>\<open>'message'\<close>, then a generic text
  field. The chunk handler reads the first two keys only: from the payload
  \<^verbatim>\<open>{text: "hello"}\<close> it extracts the empty string, not \<^verbatim>\<open>"hello"\<close>, and the
  event passes as a heartbeat.
\<close>

theorem generic_text_key_counterexample:
  "chunk_text_of (DictData [''text'' \<mapsto> PStr ''hello'']) = PStr '''' \<and>
   chunk_text_of (DictData [''text'' \<mapsto> PStr ''hello'']) \<noteq> PStr ''hello'' \<and>
   default_chunk_handler (Some (\<lambda>c. None)) None (DictData [''text'' \<mapsto> PStr ''hello'']) world0 =
     (None, world0) \<and>
   chunk_calls world0 = []"
  by (simp add: default_chunk_handler_def chunk_body_def world0_def)

text \<open>
  Claim C7, amended. For every event payload given as a mapping \<open>d\<close>, the chunk handler
  extracts the value under \<^verbatim>\<open>'response'\<close> if that key is present, else the value
  under \<^verbatim>\<open>'message'\<close> if that key is present, else the empty string: it reads no
  generic text field. The helper \<^verbatim>\<open>_extract_response_text\<close>, on a mapping, returns
  \<^verbatim>\<open>str\<close> of the value under the first key present in the order
  \<^verbatim>\<open>response\<close>, \<^verbatim>\<open>message\<close>, \<^verbatim>\<open>text\<close>, \<^verbatim>\<open>content\<close>, \<^verbatim>\<open>answer\<close>.
  In both, a key later in the order is ignored whenever an earlier one is present.
\<close>

theorem text_key_priority:
  "(d ''response'' = Some v \<longrightarrow> chunk_text_of (DictData d) = v) \<and>
   (d ''response'' = None \<and> d ''message'' = Some v \<longrightarrow> chunk_text_of (DictData d) = v) \<and>
   (d ''response'' = None \<and> d ''message'' = None \<longrightarrow> chunk_text_of (DictData d) = PStr '''') \<and>
   (i < length response_keys \<and> d (response_keys ! i) = Some v \<and>
      (\<forall>j<i. d (response_keys ! j) = None) \<longrightarrow>
      extract_response_text json_dumps (DictResponse d) = py_str v) \<and>
   response_keys = [''response'', ''message'', ''text'', ''content'', ''answer'']"
proof -
  have "extract_response_text json_dumps (DictResponse d) = py_str v"
    if "i < length response_keys" and "d (response_keys ! i) = Some v"
      and "\<forall>j<i. d (response_keys ! j) = None"
    using first_key_priority [OF that] by simp
  then show ?thesis
    by (simp add: response_keys_def)
qed

theorem text_key_priority_witness:
  "chunk_text_of (DictData [''message'' \<mapsto> PStr ''m'', ''text'' \<mapsto> PStr ''t'']) = PStr ''m'' \<and>
   extract_response_text (\<lambda>d. ''{}'')
      (DictResponse [''message'' \<mapsto> PStr ''m'', ''text'' \<mapsto> PStr ''t'']) = ''m'' \<and>
   extract_response_text (\<lambda>d. ''{}'')
      (DictResponse [''answer'' \<mapsto> PInt 42, ''text'' \<mapsto> PStr ''t'']) = ''t''"
proof -
  have a: "chunk_text_of (DictData [''message'' \<mapsto> PStr ''m'', ''text'' \<mapsto> PStr ''t'']) = PStr ''m''"
    using text_key_priority
            [where d = "[''message'' \<mapsto> PStr ''m'', ''text'' \<mapsto> PStr ''t'']"
               and v = "PStr ''m''" and i = 1 and json_dumps = "\<lambda>d. ''{}''"]
    by simp
  have b: "extract_response_text (\<lambda>d. ''{}'')
      (DictResponse [''message'' \<mapsto> PStr ''m'', ''text'' \<mapsto> PStr ''t'']) = ''m''"
    using text_key_priority
            [where d = "[''message'' \<mapsto> PStr ''m'', ''text'' \<mapsto> PStr ''t'']"
               and v = "PStr ''m''" and i = 1 and json_dumps = "\<lambda>d. ''{}''"]
    by (simp add: response_keys_def)
  have c: "extract_response_text (\<lambda>d. ''{}'')
      (DictResponse [''answer'' \<mapsto> PInt 42, ''text'' \<mapsto> PStr ''t'']) = ''t''"
    using text_key_priority
            [where d = "[''answer'' \<mapsto> PInt 42, ''text'' \<mapsto> PStr ''t'']"
               and v = "PStr ''t''" and i = 2 and json_dumps = "\<lambda>d. ''{}''"]
    by (simp add: response_keys_def less_Suc_eq numeral_2_eq_2)
  from a b c show ?thesis
    by (intro conjI)
qed

text \<open>
  Claim C8. For every incoming event whose data has neither a \<^verbatim>\<open>'response'\<close> nor a
  \<^verbatim>\<open>'message'\<close> field (an event with no dictionary as data included), or whose
  extracted text is empty (falsy), the chunk handler returns with the world as it
  found it: nothing is appended to \<^verbatim>\<open>collected_response\<close>, and \<^verbatim>\<open>on_chunk\<close> is
  not called.
\<close>

theorem heartbeat_is_noop:
  assumes "(case ev of DictData d \<Rightarrow> d ''response'' = None \<and> d ''message'' = None | _ \<Rightarrow> True)
           \<or> \<not> truthy (chunk_text_of ev)"
  shows "default_chunk_handler on_chunk on_error ev w = (None, w)"
proof -
  from assms have "\<not> truthy (chunk_text_of ev)"
    by (cases ev) auto
  then show ?thesis
    by (simp add: default_chunk_handler_def chunk_body_def)
qed

theorem heartbeat_is_noop_witness:
  "default_chunk_handler (Some (\<lambda>c. None)) None
     (DictData [''status'' \<mapsto> PStr ''complete'']) world0 = (None, world0) \<and>
   default_chunk_handler (Some (\<lambda>c. None)) None
     (DictData [''response'' \<mapsto> PStr '''', ''message'' \<mapsto> PStr ''ignored'']) world0 = (None, world0) \<and>
   collected_response world0 = [] \<and> chunk_calls world0 = []"
proof -
  have a: "(case DictData [''status'' \<mapsto> PStr ''complete''] of
              DictData d \<Rightarrow> d ''response'' = None \<and> d ''message'' = None | _ \<Rightarrow> True)
           \<or> \<not> truthy (chunk_text_of (DictData [''status'' \<mapsto> PStr ''complete'']))"
    by simp
  have b: "(case DictData [''response'' \<mapsto> PStr '''', ''message'' \<mapsto> PStr ''ignored''] of
              DictData d \<Rightarrow> d ''response'' = None \<and> d ''message'' = None | _ \<Rightarrow> True)
           \<or> \<not> truthy (chunk_text_of
                 (DictData [''response'' \<mapsto> PStr '''', ''message'' \<mapsto> PStr ''ignored'']))"
    by simp
  show ?thesis
    using heartbeat_is_noop [OF a] heartbeat_is_noop [OF b]
    by (simp add: world0_def)
qed

text \<open>
  Claim C9 says that, for every event, an exception raised by the caller's
  \<^verbatim>\<open>on_chunk\<close> is caught inside the chunk handler and does not propagate out of it.
  The handler's clause is \<^verbatim>\<open>except Exception as e: if on_error: on_error(e)\<close>.
  It does not catch a \<^verbatim>\<open>BaseException\<close> that is not an \<^verbatim>\<open>Exception\<close>
  (\<^verbatim>\<open>KeyboardInterrupt\<close>, \<^verbatim>\<open>SystemExit\<close>): that one leaves the handler, and
  \<^verbatim>\<open>on_error\<close> is not called. And \<^verbatim>\<open>on_error\<close> is called unguarded: when it
  raises the exception it was given again, that exception leaves the handler too.
\<close>

theorem on_chunk_exception_counterexample:
  "default_chunk_handler (Some (\<lambda>c. Some (BaseException ''KeyboardInterrupt'')))
     (Some (\<lambda>e. None)) (DictData [''response'' \<mapsto> PStr ''Hi'']) world0 =
     (Some (BaseException ''KeyboardInterrupt''),
      world0\<lparr>collected_response := [PStr ''Hi''], chunk_calls := [PStr ''Hi'']\<rparr>) \<and>
   default_chunk_handler (Some (\<lambda>c. Some (Exception ''boom''))) (Some (\<lambda>e. Some e))
     (DictData [''response'' \<mapsto> PStr ''Hi'']) world0 =
     (Some (Exception ''boom''),
      world0\<lparr>collected_response := [PStr ''Hi''], chunk_calls := [PStr ''Hi''],
             error_calls := [Exception ''boom'']\<rparr>)"
  by (simp add: default_chunk_handler_def chunk_body_def world0_def Let_def)

text \<open>
  Claim C9, amended. For every event from which \<^verbatim>\<open>on_chunk\<close> is called and raises
  \<open>e\<close>: if \<open>e\<close> is an instance of \<^verbatim>\<open>Exception\<close>, the chunk handler catches it; with
  no \<^verbatim>\<open>on_error\<close> registered the handler returns normally, and with
  \<^verbatim>\<open>on_error\<close> registered it is called with \<open>e\<close>, once, and the handler ends as
  that call ends, so nothing leaves the handler when \<^verbatim>\<open>on_error\<close> returns
  normally. If \<open>e\<close> is not an instance of \<^verbatim>\<open>Exception\<close>, it leaves the handler and
  \<^verbatim>\<open>on_error\<close> is not called. In every case the fragment has been collected and
  passed to \<^verbatim>\<open>on_chunk\<close>.
\<close>

theorem on_chunk_exception_outcome:
  assumes "truthy (chunk_text_of ev)" and "f (chunk_text_of ev) = Some e"
  shows "(is_Exception e \<longrightarrow>
            default_chunk_handler (Some f) None ev w =
              (None, w\<lparr>collected_response := collected_response w @ [chunk_text_of ev],
                       chunk_calls := chunk_calls w @ [chunk_text_of ev]\<rparr>) \<and>
            default_chunk_handler (Some f) (Some g) ev w =
              (g e, w\<lparr>collected_response := collected_response w @ [chunk_text_of ev],
                      chunk_calls := chunk_calls w @ [chunk_text_of ev],
                      error_calls := error_calls w @ [e]\<rparr>) \<and>
            (g e = None \<longrightarrow> fst (default_chunk_handler (Some f) (Some g) ev w) = None)) \<and>
         (\<not> is_Exception e \<longrightarrow>
            default_chunk_handler (Some f) on_error ev w =
              (Some e, w\<lparr>collected_response := collected_response w @ [chunk_text_of ev],
                         chunk_calls := chunk_calls w @ [chunk_text_of ev]\<rparr>))"
  using assms by (simp add: default_chunk_handler_def chunk_body_def Let_def)

theorem on_chunk_exception_outcome_witness:
  "default_chunk_handler (Some (\<lambda>c. Some (Exception ''boom''))) None
     (DictData [''response'' \<mapsto> PStr ''Hi'']) world0 =
     (None, world0\<lparr>collected_response := [PStr ''Hi''], chunk_calls := [PStr ''Hi'']\<rparr>) \<and>
   default_chunk_handler (Some (\<lambda>c. Some (Exception ''boom''))) (Some (\<lambda>e. None))
     (DictData [''response'' \<mapsto> PStr ''Hi'']) world0 =
     (None, world0\<lparr>collected_response := [PStr ''Hi''], chunk_calls := [PStr ''Hi''],
                    error_calls := [Exception ''boom'']\<rparr>) \<and>
   default_chunk_handler (Some (\<lambda>c. Some (BaseException ''SystemExit''))) (Some (\<lambda>e. None))
     (DictData [''response'' \<mapsto> PStr ''Hi'']) world0 =
     (Some (BaseException ''SystemExit''),
      world0\<lparr>collected_response := [PStr ''Hi''], chunk_calls := [PStr ''Hi'']\<rparr>)"
proof -
  have a: "truthy (chunk_text_of (DictData [''response'' \<mapsto> PStr ''Hi'']))"
    by simp
  have b: "(\<lambda>c. Some (Exception ''boom'')) (chunk_text_of (DictData [''response'' \<mapsto> PStr ''Hi'']))
             = Some (Exception ''boom'')"
    by simp
  have b': "(\<lambda>c. Some (BaseException ''SystemExit''))
              (chunk_text_of (DictData [''response'' \<mapsto> PStr ''Hi'']))
             = Some (BaseException ''SystemExit'')"
    by simp
  show ?thesis
    using on_chunk_exception_outcome [OF a b, where g = "\<lambda>e. None" and w = world0]
          on_chunk_exception_outcome
            [OF a b', where on_error = "Some (\<lambda>e. None)" and w = world0]
    by (simp add: world0_def)
qed

text \<open>
  Claim C10. For every call to \<^verbatim>\<open>send_message\<close> whose options mapping has a key
  \<^verbatim>\<open>'message'\<close> (and a truthy \<^verbatim>\<open>'agent'\<close>, so that the call gets past
  validation): the payload sent carries \<^verbatim>\<open>options['message']\<close> in place of the
  message argument, since \<^verbatim>\<open>data.update(options)\<close> runs after the payload is built.
  On the HTTP path one request is posted, with that value under \<^verbatim>\<open>'message'\<close>; on
  the streaming path (called without extra keyword arguments)
  \<^verbatim>\<open>start_chat_stream\<close> is called with it as \<^verbatim>\<open>message\<close>.
\<close>

theorem options_message_overrides_argument:
  assumes "options = Some d" and "d ''message'' = Some v" and "truthy (dict_get d ''agent'')"
  shows "(\<not> (streaming \<and> event_source_manager env \<noteq> None \<and> streaming_enabled env) \<longrightarrow>
            (\<exists>payload.
               http_log (snd (send_message env message options streaming on_chunk on_complete
                                on_error kwargs w)) = http_log w @ [Post (CHAT env) payload] \<and>
               payload ''message'' = Some v)) \<and>
         (streaming \<and> event_source_manager env \<noteq> None \<and> streaming_enabled env \<and> kwargs = [] \<longrightarrow>
            (\<exists>agent model polls.
               esm_log (snd (send_message env message options streaming on_chunk on_complete
                               on_error kwargs w)) =
                 esm_log w @ StartChatStream v agent model # polls))"
proof (intro conjI impI)
  assume "\<not> (streaming \<and> event_source_manager env \<noteq> None \<and> streaming_enabled env)"
  with assms show "\<exists>payload.
               http_log (snd (send_message env message options streaming on_chunk on_complete
                                on_error kwargs w)) = http_log w @ [Post (CHAT env) payload] \<and>
               payload ''message'' = Some v"
    by (auto simp: send_message_def log_and_reraise_def Let_def split: sum.splits)
next
  assume s: "streaming \<and> event_source_manager env \<noteq> None \<and> streaming_enabled env \<and> kwargs = []"
  then obtain m where m: "event_source_manager env = Some m" by blast
  let ?data = "[''message'' \<mapsto> PStr message] ++ d"
  let ?h = "handle_streaming_response env ?data None None None w"
  have sm: "snd (send_message env message options streaming on_chunk on_complete on_error kwargs w)
          = (if is_Exception (projl (fst ?h)) \<and> isl (fst ?h) \<and> has_logger env
             then (snd ?h)\<lparr>logger_log := logger_log (snd ?h) @
               [''Chat request failed for message: '' @ take 50 message @ ''...'']\<rparr>
             else snd ?h)"
    using assms s
    by (auto simp: send_message_def log_and_reraise_def call_with_kwargs_def Let_def
             split: sum.splits prod.splits)
  have dv: "?data ''message'' = Some v"
    using assms by (simp add: map_add_def)
  let ?start = "StartChatStream v (dict_get_default ?data ''agent'' (PStr ''''))
                           (dict_get_default ?data ''model'' (PStr ''''))"
  have "\<exists>polls. esm_log (snd ?h) = esm_log w @ ?start # polls"
  proof (cases "start_chat_stream m")
    case (Inl e)
    with m dv show ?thesis
      by (simp add: handle_streaming_response_def Let_def)
  next
    case (Inr sid)
    let ?w2 = "deliver None None (events_during m 0) (after_start m ?data v w)"
    obtain n where "esm_log (snd (wait_loop m None None sid (now ?w2) 0 ?w2)) =
        esm_log ?w2 @ replicate n (GetStreamStatus sid)"
      using wait_loop_esm_log by blast
    then have "esm_log (snd (wait_loop m None None sid (now ?w2) 0 ?w2)) =
        esm_log w @ ?start # replicate n (GetStreamStatus sid)"
      by (simp add: logs_deliver after_start_fields)
    then show ?thesis
      by (simp add: handle_unfold [of env m ?data v sid, OF m dv Inr] Let_def)
  qed
  with sm show "\<exists>agent model polls.
               esm_log (snd (send_message env message options streaming on_chunk on_complete
                               on_error kwargs w)) =
                 esm_log w @ StartChatStream v agent model # polls"
    by auto
qed

theorem options_message_overrides_argument_witness:
  "(\<exists>payload.
      http_log (snd (send_message (demo_env None) ''Hello'' (Some override_options) False
                       None None None [] world0)) = [Post ''/chat'' payload] \<and>
      payload ''message'' = Some (PStr ''override'')) \<and>
   (\<exists>agent model polls.
      esm_log (snd (send_message (demo_env (Some demo_esm)) ''Hello'' (Some override_options) True
                      None None None [] world0)) =
        StartChatStream (PStr ''override'') agent model # polls)"
proof -
  have v: "override_options ''message'' = Some (PStr ''override'')"
    by (simp add: override_options_def)
  have a: "truthy (dict_get override_options ''agent'')"
    by (simp add: override_options_def dict_get_def)
  have "\<exists>payload.
      http_log (snd (send_message (demo_env None) ''Hello'' (Some override_options) False
                       None None None [] world0)) = [Post ''/chat'' payload] \<and>
      payload ''message'' = Some (PStr ''override'')"
    using options_message_overrides_argument
            [where options = "Some override_options" and d = override_options
               and v = "PStr ''override''" and env = "demo_env None" and streaming = False
               and message = "''Hello''" and on_chunk = None and on_complete = None
               and on_error = None and kwargs = "[]" and w = world0, OF refl v a,
             THEN conjunct1]
    by (simp add: demo_env_def world0_def)
  moreover have "\<exists>agent model polls.
      esm_log (snd (send_message (demo_env (Some demo_esm)) ''Hello'' (Some override_options) True
                      None None None [] world0)) =
        StartChatStream (PStr ''override'') agent model # polls"
    using options_message_overrides_argument
            [where options = "Some override_options" and d = override_options
               and v = "PStr ''override''" and env = "demo_env (Some demo_esm)"
               and streaming = True
               and message = "''Hello''" and on_chunk = None and on_complete = None
               and on_error = None and kwargs = "[]" and w = world0, OF refl v a,
             THEN conjunct2]
    by (simp add: demo_env_def world0_def)
  ultimately show ?thesis ..
qed

end
